theory Spec2Isabelle
  imports Complex_Main
begin

unbundle bit_operations_syntax

section \<open>Intent flags (hikari/intents.py)\<close>

text \<open>
  \<^verbatim>\<open>Intents\<close> is a flag enumeration over Python integers. A value is modelled by the
  integer it carries; \<^verbatim>\<open>|\<close> and \<^verbatim>\<open>&\<close> are the bitwise operations on unbounded integers,
  and \<^verbatim>\<open>bool(flag)\<close> is true exactly when the carried integer is nonzero.
\<close>

type_synonym Intents = int

definition NONE :: Intents where "NONE = 0"
definition GUILDS :: Intents where "GUILDS = push_bit 0 1"
definition GUILD_MEMBERS :: Intents where "GUILD_MEMBERS = push_bit 1 1"
definition GUILD_MODERATION :: Intents where "GUILD_MODERATION = push_bit 2 1"
definition GUILD_EMOJIS :: Intents where "GUILD_EMOJIS = push_bit 3 1"
definition GUILD_INTEGRATIONS :: Intents where "GUILD_INTEGRATIONS = push_bit 4 1"
definition GUILD_WEBHOOKS :: Intents where "GUILD_WEBHOOKS = push_bit 5 1"
definition GUILD_INVITES :: Intents where "GUILD_INVITES = push_bit 6 1"
definition GUILD_VOICE_STATES :: Intents where "GUILD_VOICE_STATES = push_bit 7 1"
definition GUILD_PRESENCES :: Intents where "GUILD_PRESENCES = push_bit 8 1"
definition GUILD_MESSAGES :: Intents where "GUILD_MESSAGES = push_bit 9 1"
definition GUILD_MESSAGE_REACTIONS :: Intents where "GUILD_MESSAGE_REACTIONS = push_bit 10 1"
definition GUILD_MESSAGE_TYPING :: Intents where "GUILD_MESSAGE_TYPING = push_bit 11 1"
definition DM_MESSAGES :: Intents where "DM_MESSAGES = push_bit 12 1"
definition DM_MESSAGE_REACTIONS :: Intents where "DM_MESSAGE_REACTIONS = push_bit 13 1"
definition DM_MESSAGE_TYPING :: Intents where "DM_MESSAGE_TYPING = push_bit 14 1"
definition MESSAGE_CONTENT :: Intents where "MESSAGE_CONTENT = push_bit 15 1"
definition GUILD_SCHEDULED_EVENTS :: Intents where "GUILD_SCHEDULED_EVENTS = push_bit 16 1"
definition AUTO_MODERATION_CONFIGURATION :: Intents where
  "AUTO_MODERATION_CONFIGURATION = push_bit 20 1"
definition AUTO_MODERATION_EXECUTION :: Intents where
  "AUTO_MODERATION_EXECUTION = push_bit 21 1"
definition GUILD_MESSAGE_POLLS :: Intents where "GUILD_MESSAGE_POLLS = push_bit 24 1"
definition DIRECT_MESSAGE_POLLS :: Intents where "DIRECT_MESSAGE_POLLS = push_bit 25 1"

definition ALL_GUILDS_UNPRIVILEGED :: Intents where
  "ALL_GUILDS_UNPRIVILEGED =
     GUILDS OR GUILD_EMOJIS OR GUILD_INTEGRATIONS OR GUILD_WEBHOOKS OR GUILD_INVITES
     OR GUILD_VOICE_STATES OR GUILD_MESSAGES OR GUILD_MESSAGE_REACTIONS
     OR GUILD_MESSAGE_TYPING OR GUILD_MODERATION OR GUILD_SCHEDULED_EVENTS
     OR GUILD_MESSAGE_POLLS"

definition ALL_GUILDS_PRIVILEGED :: Intents where
  "ALL_GUILDS_PRIVILEGED = GUILD_MEMBERS OR GUILD_PRESENCES"

definition ALL_GUILDS :: Intents where
  "ALL_GUILDS = ALL_GUILDS_UNPRIVILEGED OR ALL_GUILDS_PRIVILEGED"

definition ALL_DMS :: Intents where
  "ALL_DMS = DM_MESSAGES OR DM_MESSAGE_TYPING OR DM_MESSAGE_REACTIONS OR DIRECT_MESSAGE_POLLS"

definition ALL_MESSAGES :: Intents where "ALL_MESSAGES = DM_MESSAGES OR GUILD_MESSAGES"

definition ALL_POLLS :: Intents where "ALL_POLLS = GUILD_MESSAGE_POLLS OR DIRECT_MESSAGE_POLLS"

definition ALL_MESSAGE_REACTIONS :: Intents where
  "ALL_MESSAGE_REACTIONS = DM_MESSAGE_REACTIONS OR GUILD_MESSAGE_REACTIONS"

definition ALL_MESSAGE_TYPING :: Intents where
  "ALL_MESSAGE_TYPING = DM_MESSAGE_TYPING OR GUILD_MESSAGE_TYPING"

definition ALL_AUTO_MODERATION :: Intents where
  "ALL_AUTO_MODERATION = AUTO_MODERATION_CONFIGURATION OR AUTO_MODERATION_EXECUTION"

definition ALL_UNPRIVILEGED :: Intents where
  "ALL_UNPRIVILEGED = ALL_GUILDS_UNPRIVILEGED OR ALL_DMS OR ALL_AUTO_MODERATION"

definition ALL_PRIVILEGED :: Intents where
  "ALL_PRIVILEGED = ALL_GUILDS_PRIVILEGED OR MESSAGE_CONTENT"

definition ALL_INTENTS :: Intents where "ALL_INTENTS = ALL_UNPRIVILEGED OR ALL_PRIVILEGED"

text \<open>\<^verbatim>\<open>return bool(self & self.ALL_PRIVILEGED)\<close>\<close>

definition is_privileged :: "Intents \<Rightarrow> bool" where
  "is_privileged self = ((self AND ALL_PRIVILEGED) \<noteq> 0)"

section \<open>Errors\<close>

text \<open>The Python exceptions that the modelled code can raise, as values.\<close>

datatype error =
    KeyError string
  | TypeError
  | AttributeError
  | ValueError
  | IndexError int
  | AssertionError
  | OverflowError
  | ZeroDivisionError
  | OSError
  | CancelledError string
  | TimeoutError string
  | OtherError string

section \<open>Python numbers and calendar values used by hikari/internal/time.py\<close>

text \<open>
  The time helpers divide and multiply Python floats, so the model carries IEEE 754 binary64
  values exactly. A finite float \<open>Finite m e\<close> stands for the number \<open>m * 2 ^ e\<close>; every
  arithmetic result is rounded to 53 significant bits, ties to even, with gradual underflow
  below \<open>2 ^ - 1022\<close> and overflow at \<open>2 ^ 1024\<close>.
\<close>

datatype pyfloat = Finite int int | PosInf | NegInf | NaN

datatype pynum = PyInt int | PyFloat pyfloat

text \<open>\<^verbatim>\<open>int.bit_length\<close> for a non-negative integer.\<close>

function bit_length :: "int \<Rightarrow> int" where
  "bit_length n = (if n \<le> 0 then 0 else 1 + bit_length (n div 2))"
  by pat_completeness auto
termination
  by (relation "measure nat") auto

declare bit_length.simps [simp del]

text \<open>The integer nearest to \<open>a / b\<close> for \<open>0 < b\<close>, a tie going to the even neighbour.\<close>

definition round_div_even :: "int \<Rightarrow> int \<Rightarrow> int" where
  "round_div_even a b =
     (let q = a div b; r = a mod b
      in if 2 * r < b then q else if b < 2 * r then q + 1 else if even q then q else q + 1)"

text \<open>The integer nearest to \<open>(p / q) / 2 ^ ue\<close>.\<close>

definition scaled_round :: "int \<Rightarrow> int \<Rightarrow> int \<Rightarrow> int" where
  "scaled_round p q ue =
     (if 0 \<le> ue then round_div_even p (q * 2 ^ nat ue)
      else round_div_even (p * 2 ^ nat (- ue)) q)"

text \<open>The exponent \<open>k\<close> with \<open>2 ^ k \<le> p / q < 2 ^ (k + 1)\<close>, for positive \<open>p\<close> and \<open>q\<close>.\<close>

definition ratio_exponent :: "int \<Rightarrow> int \<Rightarrow> int" where
  "ratio_exponent p q =
     (let k = bit_length p - bit_length q
      in if (if 0 \<le> k then q * 2 ^ nat k \<le> p else q \<le> p * 2 ^ nat (- k)) then k else k - 1)"

text \<open>The binary64 value nearest to the exact quotient \<open>p / q\<close>, for \<open>0 < q\<close>.\<close>

definition float_of_ratio :: "int \<Rightarrow> int \<Rightarrow> pyfloat" where
  "float_of_ratio p q =
     (if p = 0 then Finite 0 0
      else
        let ue = max (ratio_exponent \<bar>p\<bar> q) (- 1022) - 52;
            m = scaled_round \<bar>p\<bar> q ue
        in if 1024 < bit_length m + ue then (if 0 < p then PosInf else NegInf)
           else Finite (if 0 < p then m else - m) ue)"

text \<open>
  \<^verbatim>\<open>a / b\<close> on two Python integers: the correctly rounded quotient, \<^verbatim>\<open>OverflowError\<close> when
  it does not fit a float.
\<close>

definition int_truediv :: "int \<Rightarrow> int \<Rightarrow> error + pyfloat" where
  "int_truediv a b =
     (if b = 0 then Inl ZeroDivisionError
      else case (if 0 < b then float_of_ratio a b else float_of_ratio (- a) (- b)) of
        PosInf \<Rightarrow> Inl OverflowError
      | NegInf \<Rightarrow> Inl OverflowError
      | f \<Rightarrow> Inr f)"

text \<open>
  \<open>float_scale f p q\<close> is the float \<open>f * p / q\<close> for positive integers \<open>p\<close> and \<open>q\<close> of which
  one is \<open>1\<close> and the other is exactly representable: \<^verbatim>\<open>f * 1000\<close> is \<open>float_scale f 1000 1\<close>
  and \<^verbatim>\<open>f / 1000\<close> is \<open>float_scale f 1 1000\<close>. Infinities and NaN pass through.
\<close>

fun float_scale :: "pyfloat \<Rightarrow> int \<Rightarrow> int \<Rightarrow> pyfloat" where
  "float_scale (Finite m e) p q =
     (if 0 \<le> e then float_of_ratio (m * 2 ^ nat e * p) q
      else float_of_ratio (m * p) (q * 2 ^ nat (- e)))"
| "float_scale f p q = f"

text \<open>\<^verbatim>\<open>int(f)\<close>: truncation towards zero.\<close>

fun float_trunc :: "pyfloat \<Rightarrow> error + int" where
  "float_trunc (Finite m e) =
     Inr (if 0 \<le> e then m * 2 ^ nat e
          else if 0 \<le> m then m div 2 ^ nat (- e) else - ((- m) div 2 ^ nat (- e)))"
| "float_trunc NaN = Inl ValueError"
| "float_trunc f = Inl OverflowError"

text \<open>Rounding a finite float to the nearest integer, ties to even.\<close>

fun float_round_half_even :: "pyfloat \<Rightarrow> int" where
  "float_round_half_even (Finite m e) = scaled_round m 1 (- e)"
| "float_round_half_even f = 0"

text \<open>\<open>f - n\<close> for an integer \<open>n\<close> (exact when \<open>n\<close> is the integral part of \<open>f\<close>).\<close>

fun float_sub_int :: "pyfloat \<Rightarrow> int \<Rightarrow> pyfloat" where
  "float_sub_int (Finite m e) n =
     (if 0 \<le> e then float_of_ratio (m * 2 ^ nat e - n) 1
      else float_of_ratio (m - n * 2 ^ nat (- e)) (2 ^ nat (- e)))"
| "float_sub_int f n = f"

text \<open>\<^verbatim>\<open>f > 0\<close>\<close>

fun float_pos :: "pyfloat \<Rightarrow> bool" where
  "float_pos (Finite m e) = (0 < m)"
| "float_pos PosInf = True"
| "float_pos f = False"

text \<open>
  A timezone-aware UTC \<^verbatim>\<open>datetime\<close> is the number of microseconds since
  1970-01-01T00:00:00Z; a \<^verbatim>\<open>timedelta\<close> is a number of microseconds.
  \<^verbatim>\<open>datetime.min\<close> is 0001-01-01T00:00:00 and \<^verbatim>\<open>datetime.max\<close> is
  9999-12-31T23:59:59.999999.
\<close>

type_synonym timedelta = int

datatype datetime = Datetime int

definition datetime_min :: datetime where "datetime_min = Datetime (- 62135596800000000)"

definition datetime_max :: datetime where "datetime_max = Datetime 253402300799999999"

text \<open>\<^verbatim>\<open>DISCORD_EPOCH = datetime.timedelta(seconds=1_420_070_400)\<close>\<close>

definition DISCORD_EPOCH :: timedelta where "DISCORD_EPOCH = 1420070400 * 1000000"

text \<open>
  \<^verbatim>\<open>datetime.datetime.fromtimestamp(t, datetime.timezone.utc)\<close> as CPython computes it on a
  platform with a 64-bit \<^verbatim>\<open>time_t\<close>: the float is split into its integral part and its
  fraction, the fraction times \<open>1e6\<close> is rounded half-even to microseconds, and the seconds
  are converted. Seconds outside \<^verbatim>\<open>time_t\<close> raise \<^verbatim>\<open>OverflowError\<close>, seconds the C library
  cannot convert raise \<^verbatim>\<open>OSError\<close>, a year outside 1..9999 raises \<^verbatim>\<open>ValueError\<close>, and so
  does NaN.
\<close>

definition fromtimestamp :: "pyfloat \<Rightarrow> error + datetime" where
  "fromtimestamp t =
     (case float_trunc t of
        Inl e \<Rightarrow> Inl e
      | Inr intpart \<Rightarrow>
          (let us0 = float_round_half_even (float_scale (float_sub_int t intpart) 1000000 1);
               (secs, us) = (if 1000000 \<le> us0 then (intpart + 1, us0 - 1000000)
                             else if us0 < 0 then (intpart - 1, us0 + 1000000)
                             else (intpart, us0))
           in if secs < - (2 ^ 63) \<or> 2 ^ 63 \<le> secs then Inl OverflowError
              else if secs < - 67768040609740800 \<or> 67767976233532799 < secs then Inl OSError
              else if secs < - 62135596800 \<or> 253402300799 < secs then Inl ValueError
              else Inr (Datetime (secs * 1000000 + us))))"

text \<open>\<^verbatim>\<open>dt + td\<close>: \<^verbatim>\<open>OverflowError\<close> when the result leaves the calendar.\<close>

definition datetime_add :: "datetime \<Rightarrow> timedelta \<Rightarrow> error + datetime" where
  "datetime_add dt td =
     (case dt of Datetime us \<Rightarrow>
        (if - 62135596800000000 \<le> us + td \<and> us + td \<le> 253402300799999999
         then Inr (Datetime (us + td)) else Inl OverflowError))"

text \<open>
  \<^verbatim>\<open>dt.timestamp()\<close> on an aware value is \<^verbatim>\<open>(dt - EPOCH).total_seconds()\<close>, the
  microseconds divided by \<open>10 ^ 6\<close> as integers.
\<close>

definition timestamp :: "datetime \<Rightarrow> error + pyfloat" where
  "timestamp dt = (case dt of Datetime us \<Rightarrow> int_truediv us 1000000)"

text \<open>
  \<^verbatim>\<open>return datetime.datetime.fromtimestamp(epoch / 1_000, datetime.timezone.utc) + DISCORD_EPOCH\<close>
\<close>

definition discord_epoch_to_datetime :: "int \<Rightarrow> error + datetime" where
  "discord_epoch_to_datetime epoch =
     (case int_truediv epoch 1000 of
        Inl e \<Rightarrow> Inl e
      | Inr t \<Rightarrow>
          (case fromtimestamp t of
             Inl e \<Rightarrow> Inl e
           | Inr dt \<Rightarrow> datetime_add dt DISCORD_EPOCH))"

text \<open>\<^verbatim>\<open>return int((timestamp - DISCORD_EPOCH).timestamp() * 1_000)\<close>\<close>

definition datetime_to_discord_epoch :: "datetime \<Rightarrow> error + int" where
  "datetime_to_discord_epoch ts =
     (case datetime_add ts (- DISCORD_EPOCH) of
        Inl e \<Rightarrow> Inl e
      | Inr dt \<Rightarrow>
          (case timestamp dt of
             Inl e \<Rightarrow> Inl e
           | Inr t \<Rightarrow> float_trunc (float_scale t 1000 1)))"

text \<open>\<^verbatim>\<open>epoch / d\<close> for a number \<open>epoch\<close> and a positive integer \<open>d\<close>.\<close>

fun truediv :: "pynum \<Rightarrow> int \<Rightarrow> error + pyfloat" where
  "truediv (PyInt a) d = int_truediv a d"
| "truediv (PyFloat f) d = Inr (float_scale f 1 d)"

text \<open>
  \<^verbatim>\<open>unix_epoch_to_datetime\<close>. The divisor \<^verbatim>\<open>(is_millis * 1_000) or 1\<close> is \<open>1000\<close> or \<open>1\<close>. The
  handler catches \<^verbatim>\<open>OSError\<close> and \<^verbatim>\<open>ValueError\<close> only; by then \<^verbatim>\<open>epoch\<close> holds the
  divided value, which the handler compares with zero.
\<close>

definition unix_epoch_to_datetime :: "pynum \<Rightarrow> bool \<Rightarrow> error + datetime" where
  "unix_epoch_to_datetime epoch is_millis =
     (case truediv epoch (if is_millis then 1000 else 1) of
        Inl e \<Rightarrow> Inl e
      | Inr t \<Rightarrow>
          (case fromtimestamp t of
             Inr dt \<Rightarrow> Inr dt
           | Inl e \<Rightarrow>
               (if e = OSError \<or> e = ValueError
                then Inr (if float_pos t then datetime_max else datetime_min)
                else Inl e)))"

section \<open>Wire payloads and the event factory (hikari/impl/event_factory.py)\<close>

text \<open>
  A payload is a JSON value as \<^verbatim>\<open>json.loads\<close> delivers it: \<^verbatim>\<open>None\<close>, a bool, an int, a
  float, a string, a list, or a dict with string keys (an association list, looked up by
  its first matching key).
\<close>

datatype json =
    JNull
  | JBool bool
  | JInt int
  | JFloat pyfloat
  | JStr string
  | JArr "json list"
  | JObj "(string \<times> json) list"

type_synonym JSONObject = "(string \<times> json) list"

type_synonym snowflake = int

type_synonym shard = nat

text \<open>Sequencing of computations that may raise.\<close>

definition and_then :: "error + 'a \<Rightarrow> ('a \<Rightarrow> error + 'b) \<Rightarrow> error + 'b" where
  "and_then m f = (case m of Inl e \<Rightarrow> Inl e | Inr x \<Rightarrow> f x)"

text \<open>\<^verbatim>\<open>payload[key]\<close>, \<^verbatim>\<open>key in payload\<close> and \<^verbatim>\<open>payload.get(key)\<close> on a dict.\<close>

definition getitem :: "JSONObject \<Rightarrow> string \<Rightarrow> error + json" where
  "getitem payload key =
     (case map_of payload key of None \<Rightarrow> Inl (KeyError key) | Some v \<Rightarrow> Inr v)"

definition contains :: "JSONObject \<Rightarrow> string \<Rightarrow> bool" where
  "contains payload key = (map_of payload key \<noteq> None)"

text \<open>\<^verbatim>\<open>payload.get(key)\<close>: a missing key gives \<^verbatim>\<open>None\<close>, which is also what JSON null is.\<close>

definition get_or_none :: "JSONObject \<Rightarrow> string \<Rightarrow> json" where
  "get_or_none payload key = (case map_of payload key of None \<Rightarrow> JNull | Some v \<Rightarrow> v)"

text \<open>The same three operations on a value that is only expected to be a dict.\<close>

fun json_getitem :: "json \<Rightarrow> string \<Rightarrow> error + json" where
  "json_getitem (JObj kvs) key = getitem kvs key"
| "json_getitem j key = Inl TypeError"

fun json_get :: "json \<Rightarrow> string \<Rightarrow> error + json" where
  "json_get (JObj kvs) key = Inr (get_or_none kvs key)"
| "json_get j key = Inl AttributeError"

text \<open>\<^verbatim>\<open>len(x)\<close>: a dict counts its distinct keys.\<close>

fun py_len :: "json \<Rightarrow> error + nat" where
  "py_len (JObj kvs) = Inr (length (remdups (map fst kvs)))"
| "py_len (JArr xs) = Inr (length xs)"
| "py_len (JStr s) = Inr (length s)"
| "py_len j = Inl TypeError"

text \<open>Python truthiness of a JSON value.\<close>

fun truthy :: "json \<Rightarrow> bool" where
  "truthy JNull = False"
| "truthy (JBool b) = b"
| "truthy (JInt n) = (n \<noteq> 0)"
| "truthy (JFloat (Finite m e)) = (m \<noteq> 0)"
| "truthy (JFloat f) = True"
| "truthy (JStr s) = (s \<noteq> [])"
| "truthy (JArr xs) = (xs \<noteq> [])"
| "truthy (JObj kvs) = (kvs \<noteq> [])"

text \<open>A JSON value used as a number: bools are integers, anything else is a type error.\<close>

fun as_number :: "json \<Rightarrow> error + pynum" where
  "as_number (JInt n) = Inr (PyInt n)"
| "as_number (JBool b) = Inr (PyInt (if b then 1 else 0))"
| "as_number (JFloat f) = Inr (PyFloat f)"
| "as_number j = Inl TypeError"

text \<open>
  \<^verbatim>\<open>undefined.UNDEFINED\<close> against a value that is there (which may itself be \<^verbatim>\<open>None\<close>).
\<close>

datatype 'a UndefinedOr = UNDEFINED | Defined 'a

text \<open>\<^verbatim>\<open>payload.get(key, undefined.UNDEFINED)\<close>\<close>

definition get_or_undefined :: "JSONObject \<Rightarrow> string \<Rightarrow> json UndefinedOr" where
  "get_or_undefined payload key =
     (case map_of payload key of None \<Rightarrow> UNDEFINED | Some v \<Rightarrow> Defined v)"

text \<open>
  The fields of a message entity that the events read. \<^verbatim>\<open>guild_id\<close> is a snowflake or
  \<^verbatim>\<open>None\<close>. Full and partial messages share the shape.
\<close>

record Message =
  msg_id :: snowflake
  msg_channel_id :: snowflake
  msg_guild_id :: "snowflake option"

text \<open>
  \<^verbatim>\<open>PartialUserImpl\<close>, with the fields in the order of the constructor call. A field read
  with \<^verbatim>\<open>.get(key, UNDEFINED)\<close> holds the raw payload value; \<open>JNull\<close> is Python's \<^verbatim>\<open>None\<close>.
\<close>

record PartialUser =
  user_id :: snowflake
  user_discriminator :: "json UndefinedOr"
  user_username :: "json UndefinedOr"
  user_global_name :: "json UndefinedOr"
  user_avatar_decoration :: "json UndefinedOr"
  user_avatar_hash :: "json UndefinedOr"
  user_banner_hash :: "json UndefinedOr"
  user_accent_color :: "int option UndefinedOr"
  user_is_bot :: "json UndefinedOr"
  user_is_system :: "json UndefinedOr"
  user_flags :: "int UndefinedOr"

text \<open>
  What the factory calls and does not define: the constructors \<^verbatim>\<open>snowflakes.Snowflake\<close>,
  \<^verbatim>\<open>UserFlag\<close> and \<^verbatim>\<open>colors.Color\<close> (all integers once built), the ISO 8601 parser chosen
  at import time, and the entity factory of the application. They are parameters of every
  decode operation; \<open>'member\<close> and \<open>'presence\<close> are the entity types the entity factory
  returns.
\<close>

record ('member, 'presence) collaborators =
  Snowflake :: "json \<Rightarrow> error + snowflake"
  UserFlag :: "json \<Rightarrow> error + int"
  Color :: "json \<Rightarrow> error + int"
  iso8601_datetime_string_to_datetime :: "json \<Rightarrow> error + datetime"
  deserialize_member :: "json \<Rightarrow> snowflake \<Rightarrow> error + 'member"
  deserialize_message :: "JSONObject \<Rightarrow> error + Message"
  deserialize_partial_message :: "JSONObject \<Rightarrow> error + Message"
  deserialize_member_presence :: "JSONObject \<Rightarrow> error + 'presence"

text \<open>
  The name of a reaction emoji: the payload value as it is, or the payload value wrapped
  in \<^verbatim>\<open>emojis.UnicodeEmoji\<close>.
\<close>

datatype emoji_name = Name json | UnicodeEmoji json

text \<open>
  The event classes the modelled operations construct. Each constructor takes the
  keyword arguments of the source call in their order, without \<^verbatim>\<open>app\<close>.
\<close>

datatype ('member, 'presence) event =
    GuildPinsUpdateEvent shard snowflake snowflake "datetime option"
  | DMPinsUpdateEvent shard snowflake "datetime option"
  | GuildTypingEvent shard snowflake snowflake datetime 'member
  | DMTypingEvent shard snowflake snowflake datetime
  | PresenceUpdateEvent shard 'presence "PartialUser option" "'presence option"
  | GuildMessageCreateEvent shard Message
  | DMMessageCreateEvent shard Message
  | GuildMessageUpdateEvent shard Message "Message option"
  | DMMessageUpdateEvent shard Message "Message option"
  | GuildMessageDeleteEvent shard snowflake snowflake snowflake "Message option"
  | DMMessageDeleteEvent shard snowflake snowflake "Message option"
  | GuildReactionAddEvent shard 'member snowflake snowflake "snowflake option" emoji_name bool
  | DMReactionAddEvent shard snowflake snowflake snowflake "snowflake option" emoji_name bool
  | GuildReactionDeleteEvent shard snowflake snowflake snowflake snowflake
      "snowflake option" emoji_name
  | DMReactionDeleteEvent shard snowflake snowflake snowflake "snowflake option" emoji_name
  | GuildReactionDeleteAllEvent shard snowflake snowflake snowflake
  | DMReactionDeleteAllEvent shard snowflake snowflake
  | GuildReactionDeleteEmojiEvent shard "snowflake option" emoji_name snowflake snowflake
      snowflake
  | DMReactionDeleteEmojiEvent shard "snowflake option" emoji_name snowflake snowflake
  | PollVoteCreateEvent shard snowflake snowflake snowflake "snowflake option" json
  | PollVoteDeleteEvent shard snowflake snowflake snowflake "snowflake option" json



definition deserialize_channel_pins_update_event ::
  "('member, 'presence) collaborators \<Rightarrow> shard \<Rightarrow> JSONObject
   \<Rightarrow> error + ('member, 'presence) event" where
  "deserialize_channel_pins_update_event app shard payload =
     and_then (and_then (getitem payload ''channel_id'') (Snowflake app)) (\<lambda>channel_id.
     and_then (let raw = get_or_none payload ''last_pin_timestamp'' in
               if raw \<noteq> JNull
               then and_then (iso8601_datetime_string_to_datetime app raw) (\<lambda>t. Inr (Some t))
               else Inr None) (\<lambda>last_pin_timestamp.
     if contains payload ''guild_id'' then
       and_then (and_then (getitem payload ''guild_id'') (Snowflake app)) (\<lambda>guild_id.
       Inr (GuildPinsUpdateEvent shard channel_id guild_id last_pin_timestamp))
     else Inr (DMPinsUpdateEvent shard channel_id last_pin_timestamp)))"

definition deserialize_typing_start_event ::
  "('member, 'presence) collaborators \<Rightarrow> shard \<Rightarrow> JSONObject
   \<Rightarrow> error + ('member, 'presence) event" where
  "deserialize_typing_start_event app shard payload =
     and_then (and_then (getitem payload ''channel_id'') (Snowflake app)) (\<lambda>channel_id.
     and_then (and_then (and_then (getitem payload ''timestamp'') as_number)
                 (\<lambda>epoch. unix_epoch_to_datetime epoch False)) (\<lambda>timestamp.
     if contains payload ''guild_id'' then
       and_then (and_then (getitem payload ''guild_id'') (Snowflake app)) (\<lambda>guild_id.
       and_then (and_then (getitem payload ''member'')
                   (\<lambda>raw. deserialize_member app raw guild_id)) (\<lambda>member.
       Inr (GuildTypingEvent shard channel_id guild_id timestamp member)))
     else
       and_then (and_then (getitem payload ''user_id'') (Snowflake app)) (\<lambda>user_id.
       Inr (DMTypingEvent shard channel_id user_id timestamp))))"

text \<open>
  \<^verbatim>\<open>deserialize_presence_update_event\<close>. A user payload that is not a dict fails at
  \<^verbatim>\<open>len\<close> or, when long enough, at its first \<^verbatim>\<open>.get\<close>.
\<close>

definition deserialize_presence_update_event ::
  "('member, 'presence) collaborators \<Rightarrow> shard \<Rightarrow> JSONObject \<Rightarrow> 'presence option
   \<Rightarrow> error + ('member, 'presence) event" where
  "deserialize_presence_update_event app shard payload old_presence =
     and_then (deserialize_member_presence app payload) (\<lambda>presence.
     and_then (getitem payload ''user'') (\<lambda>user_payload.
     and_then (py_len user_payload) (\<lambda>n.
     if 1 < n then
       (case user_payload of
          JObj up \<Rightarrow>
            (let discriminator = get_or_undefined up ''discriminator'' in
             and_then (if contains up ''public_flags''
                       then and_then (and_then (getitem up ''public_flags'') (UserFlag app))
                              (\<lambda>f. Inr (Defined f))
                       else Inr UNDEFINED) (\<lambda>flags.
             and_then (if contains up ''accent_color''
                       then and_then (getitem up ''accent_color'') (\<lambda>raw_accent_color.
                              if raw_accent_color \<noteq> JNull
                              then and_then (Color app raw_accent_color)
                                     (\<lambda>c. Inr (Defined (Some c)))
                              else Inr (Defined None))
                       else Inr UNDEFINED) (\<lambda>accent_color.
             and_then (and_then (getitem up ''id'') (Snowflake app)) (\<lambda>uid.
             Inr (PresenceUpdateEvent shard presence
                    (Some \<lparr>user_id = uid,
                           user_discriminator = discriminator,
                           user_username = get_or_undefined up ''username'',
                           user_global_name = get_or_undefined up ''global_name'',
                           user_avatar_decoration = Defined JNull,
                           user_avatar_hash = get_or_undefined up ''avatar'',
                           user_banner_hash = get_or_undefined up ''banner'',
                           user_accent_color = accent_color,
                           user_is_bot = get_or_undefined up ''bot'',
                           user_is_system = get_or_undefined up ''system'',
                           user_flags = flags\<rparr>)
                    old_presence)))))
        | other \<Rightarrow> Inl AttributeError)
     else Inr (PresenceUpdateEvent shard presence None old_presence))))"

definition deserialize_message_create_event ::
  "('member, 'presence) collaborators \<Rightarrow> shard \<Rightarrow> JSONObject
   \<Rightarrow> error + ('member, 'presence) event" where
  "deserialize_message_create_event app shard payload =
     and_then (deserialize_message app payload) (\<lambda>message.
     if msg_guild_id message = None then Inr (DMMessageCreateEvent shard message)
     else Inr (GuildMessageCreateEvent shard message))"

definition deserialize_message_update_event ::
  "('member, 'presence) collaborators \<Rightarrow> shard \<Rightarrow> JSONObject \<Rightarrow> Message option
   \<Rightarrow> error + ('member, 'presence) event" where
  "deserialize_message_update_event app shard payload old_message =
     and_then (deserialize_partial_message app payload) (\<lambda>message.
     if msg_guild_id message = None then Inr (DMMessageUpdateEvent shard message old_message)
     else Inr (GuildMessageUpdateEvent shard message old_message))"

definition deserialize_message_delete_event ::
  "('member, 'presence) collaborators \<Rightarrow> shard \<Rightarrow> JSONObject \<Rightarrow> Message option
   \<Rightarrow> error + ('member, 'presence) event" where
  "deserialize_message_delete_event app shard payload old_message =
     and_then (and_then (getitem payload ''channel_id'') (Snowflake app)) (\<lambda>channel_id.
     and_then (and_then (getitem payload ''id'') (Snowflake app)) (\<lambda>message_id.
     if contains payload ''guild_id'' then
       and_then (and_then (getitem payload ''guild_id'') (Snowflake app)) (\<lambda>guild_id.
       Inr (GuildMessageDeleteEvent shard channel_id message_id guild_id old_message))
     else Inr (DMMessageDeleteEvent shard channel_id message_id old_message)))"

text \<open>
  The \<^verbatim>\<open>guild_id\<close> property of \<^verbatim>\<open>GuildMessageCreateEvent\<close> and of
  \<^verbatim>\<open>GuildMessageUpdateEvent\<close> (hikari/events/message_events.py): the message's guild id,
  behind \<^verbatim>\<open>assert isinstance(guild_id, snowflakes.Snowflake)\<close>.
\<close>

definition message_event_guild_id :: "Message \<Rightarrow> error + snowflake" where
  "message_event_guild_id message =
     (case msg_guild_id message of None \<Rightarrow> Inl AssertionError | Some guild_id \<Rightarrow> Inr guild_id)"

text \<open>
  The emoji part of \<^verbatim>\<open>deserialize_message_reaction_add_event\<close>: the id is decoded when
  the raw id is truthy, and the name is wrapped when the decoded id is falsy (\<^verbatim>\<open>None\<close> or
  the snowflake zero).
\<close>

definition reaction_add_emoji ::
  "('member, 'presence) collaborators \<Rightarrow> json \<Rightarrow> error + (snowflake option \<times> bool \<times> emoji_name)"
  where
  "reaction_add_emoji app emoji_payload =
     and_then (json_get emoji_payload ''id'') (\<lambda>raw_emoji_id.
     and_then (if truthy raw_emoji_id
               then and_then (Snowflake app raw_emoji_id) (\<lambda>i. Inr (Some i))
               else Inr None) (\<lambda>emoji_id.
     and_then (json_get emoji_payload ''animated'') (\<lambda>animated.
     and_then (json_getitem emoji_payload ''name'') (\<lambda>nm.
     Inr (emoji_id, truthy animated,
          if emoji_id = None \<or> emoji_id = Some 0 then UnicodeEmoji nm else Name nm)))))"

definition deserialize_message_reaction_add_event ::
  "('member, 'presence) collaborators \<Rightarrow> shard \<Rightarrow> JSONObject
   \<Rightarrow> error + ('member, 'presence) event" where
  "deserialize_message_reaction_add_event app shard payload =
     and_then (and_then (getitem payload ''channel_id'') (Snowflake app)) (\<lambda>channel_id.
     and_then (and_then (getitem payload ''message_id'') (Snowflake app)) (\<lambda>message_id.
     and_then (and_then (getitem payload ''emoji'') (reaction_add_emoji app))
       (\<lambda>(emoji_id, is_animated, emoji_name).
     if contains payload ''member'' then
       and_then (and_then (getitem payload ''guild_id'') (Snowflake app)) (\<lambda>guild_id.
       and_then (and_then (getitem payload ''member'')
                   (\<lambda>raw. deserialize_member app raw guild_id)) (\<lambda>member.
       Inr (GuildReactionAddEvent shard member channel_id message_id emoji_id emoji_name
              is_animated)))
     else
       and_then (and_then (getitem payload ''user_id'') (Snowflake app)) (\<lambda>user_id.
       Inr (DMReactionAddEvent shard channel_id message_id user_id emoji_id emoji_name
              is_animated)))))"

text \<open>\<^verbatim>\<open>_split_reaction_emoji\<close>: the branch is on \<^verbatim>\<open>emoji_payload.get("id") is not None\<close>.\<close>

definition split_reaction_emoji ::
  "('member, 'presence) collaborators \<Rightarrow> json \<Rightarrow> error + (snowflake option \<times> emoji_name)" where
  "split_reaction_emoji app emoji_payload =
     and_then (json_get emoji_payload ''id'') (\<lambda>emoji_id.
     if emoji_id \<noteq> JNull then
       and_then (Snowflake app emoji_id) (\<lambda>i.
       and_then (json_getitem emoji_payload ''name'') (\<lambda>nm. Inr (Some i, Name nm)))
     else and_then (json_getitem emoji_payload ''name'') (\<lambda>nm. Inr (None, UnicodeEmoji nm)))"

definition deserialize_message_reaction_remove_event ::
  "('member, 'presence) collaborators \<Rightarrow> shard \<Rightarrow> JSONObject
   \<Rightarrow> error + ('member, 'presence) event" where
  "deserialize_message_reaction_remove_event app shard payload =
     and_then (and_then (getitem payload ''channel_id'') (Snowflake app)) (\<lambda>channel_id.
     and_then (and_then (getitem payload ''message_id'') (Snowflake app)) (\<lambda>message_id.
     and_then (and_then (getitem payload ''user_id'') (Snowflake app)) (\<lambda>user_id.
     and_then (and_then (getitem payload ''emoji'') (split_reaction_emoji app))
       (\<lambda>(emoji_id, emoji_name).
     if contains payload ''guild_id'' then
       and_then (and_then (getitem payload ''guild_id'') (Snowflake app)) (\<lambda>guild_id.
       Inr (GuildReactionDeleteEvent shard user_id guild_id channel_id message_id emoji_id
              emoji_name))
     else Inr (DMReactionDeleteEvent shard user_id channel_id message_id emoji_id
                 emoji_name)))))"

definition deserialize_message_reaction_remove_all_event ::
  "('member, 'presence) collaborators \<Rightarrow> shard \<Rightarrow> JSONObject
   \<Rightarrow> error + ('member, 'presence) event" where
  "deserialize_message_reaction_remove_all_event app shard payload =
     and_then (and_then (getitem payload ''channel_id'') (Snowflake app)) (\<lambda>channel_id.
     and_then (and_then (getitem payload ''message_id'') (Snowflake app)) (\<lambda>message_id.
     if contains payload ''guild_id'' then
       and_then (and_then (getitem payload ''guild_id'') (Snowflake app)) (\<lambda>guild_id.
       Inr (GuildReactionDeleteAllEvent shard guild_id channel_id message_id))
     else Inr (DMReactionDeleteAllEvent shard channel_id message_id)))"

definition deserialize_message_reaction_remove_emoji_event ::
  "('member, 'presence) collaborators \<Rightarrow> shard \<Rightarrow> JSONObject
   \<Rightarrow> error + ('member, 'presence) event" where
  "deserialize_message_reaction_remove_emoji_event app shard payload =
     and_then (and_then (getitem payload ''channel_id'') (Snowflake app)) (\<lambda>channel_id.
     and_then (and_then (getitem payload ''message_id'') (Snowflake app)) (\<lambda>message_id.
     and_then (and_then (getitem payload ''emoji'') (split_reaction_emoji app))
       (\<lambda>(emoji_id, emoji_name).
     if contains payload ''guild_id'' then
       and_then (and_then (getitem payload ''guild_id'') (Snowflake app)) (\<lambda>guild_id.
       Inr (GuildReactionDeleteEmojiEvent shard emoji_id emoji_name guild_id channel_id
              message_id))
     else Inr (DMReactionDeleteEmojiEvent shard emoji_id emoji_name channel_id message_id))))"




text \<open>
  One concrete set of collaborators, used to run the operations on example payloads:
  identifiers are JSON integers or one-digit strings, the entity factory reads
  \<^verbatim>\<open>id\<close>, \<^verbatim>\<open>channel_id\<close> and \<^verbatim>\<open>guild_id\<close> of a message and returns member and presence payloads
  unchanged.
\<close>

definition digit_value :: "char \<Rightarrow> int option" where
  "digit_value c =
     (let code = (of_char c :: nat)
      in if 48 \<le> code \<and> code \<le> 57 then Some (int code - 48) else None)"

fun simple_int :: "json \<Rightarrow> error + int" where
  "simple_int (JInt n) = Inr n"
| "simple_int (JStr [c]) = (case digit_value c of None \<Rightarrow> Inl ValueError | Some d \<Rightarrow> Inr d)"
| "simple_int (JStr s) = Inl ValueError"
| "simple_int j = Inl TypeError"

definition simple_message :: "JSONObject \<Rightarrow> error + Message" where
  "simple_message payload =
     and_then (and_then (getitem payload ''id'') simple_int) (\<lambda>i.
     and_then (and_then (getitem payload ''channel_id'') simple_int) (\<lambda>c.
     and_then (if contains payload ''guild_id''
               then and_then (and_then (getitem payload ''guild_id'') simple_int)
                      (\<lambda>g. Inr (Some g))
               else Inr None) (\<lambda>g.
     Inr \<lparr>msg_id = i, msg_channel_id = c, msg_guild_id = g\<rparr>)))"

definition simple_app :: "(json \<times> snowflake, JSONObject) collaborators" where
  "simple_app =
     \<lparr>Snowflake = simple_int,
      UserFlag = simple_int,
      Color = simple_int,
      iso8601_datetime_string_to_datetime = (\<lambda>j. Inl ValueError),
      deserialize_member = (\<lambda>raw guild_id. Inr (raw, guild_id)),
      deserialize_message = simple_message,
      deserialize_partial_message = simple_message,
      deserialize_member_presence = (\<lambda>payload. Inr payload)\<rparr>"

text \<open>
  Example payloads: one that carries every key the modelled operations read, with a guild
  id, a member and a custom emoji, and a reaction payload that has a guild id and no
  member.
\<close>

definition guild_payload :: JSONObject where
  "guild_payload =
     [(''id'', JStr ''7''), (''channel_id'', JStr ''1''), (''message_id'', JStr ''2''),
      (''guild_id'', JStr ''3''), (''user_id'', JStr ''4''), (''timestamp'', JInt 5),
      (''answer_id'', JInt 6), (''member'', JObj [(''nick'', JNull)]),
      (''emoji'', JObj [(''id'', JStr ''8''), (''name'', JStr ''x'')])]"

definition memberless_payload :: JSONObject where
  "memberless_payload =
     [(''channel_id'', JStr ''1''), (''message_id'', JStr ''2''), (''guild_id'', JStr ''3''),
      (''user_id'', JStr ''4''), (''answer_id'', JInt 6),
      (''emoji'', JObj [(''id'', JNull), (''name'', JStr ''x'')])]"

section \<open>Task coordination (hikari/internal/aio.py)\<close>

text \<open>
  \<^verbatim>\<open>first_completed\<close> and \<^verbatim>\<open>all_of\<close> are sequential code around awaits. What the event loop
  does at an await is an input of the model: an await either returns a value or raises.
  A future is pending, done (with a result or an exception) or cancelled. A pending
  future carries what \<^verbatim>\<open>await f\<close> gives after \<^verbatim>\<open>f.cancel()\<close>: the task may end cancelled
  (\<^verbatim>\<open>CancelledError\<close>), may raise something else while it unwinds, or may ignore the
  request and return. In every case \<^verbatim>\<open>await f\<close> comes back only once \<open>f\<close> is done.
\<close>

datatype 'v outcome = Returned 'v | Raised error

datatype 'v future = Pending "'v outcome" | Done "'v outcome" | Cancelled

fun is_pending :: "'v future \<Rightarrow> bool" where
  "is_pending (Pending r) = True"
| "is_pending f = False"

text \<open>What a Python function hands back when it returns: \<^verbatim>\<open>None\<close> or a value.\<close>

datatype 'v returned = PyNone | Value 'v

text \<open>
  The loop of both \<^verbatim>\<open>finally\<close> blocks, over the futures in argument order:
  \<^verbatim>\<open>
  for f in fs:
      if not f.done() and not f.cancelled():
          f.cancel()
          try:
              await f
          except asyncio.CancelledError:
              pass
  \<close>
  The result is the exception that left the loop, if any, and the futures afterwards.
\<close>

fun cancel_and_await :: "'v future list \<Rightarrow> error option \<times> 'v future list" where
  "cancel_and_await [] = (None, [])"
| "cancel_and_await (Pending (Raised (CancelledError msg)) # fs) =
     (case cancel_and_await fs of (e, fs') \<Rightarrow> (e, Cancelled # fs'))"
| "cancel_and_await (Pending (Raised e) # fs) = (Some e, Done (Raised e) # fs)"
| "cancel_and_await (Pending (Returned v) # fs) =
     (case cancel_and_await fs of (e, fs') \<Rightarrow> (e, Done (Returned v) # fs'))"
| "cancel_and_await (f # fs) = (case cancel_and_await fs of (e, fs') \<Rightarrow> (e, f # fs'))"

text \<open>
  The \<^verbatim>\<open>try\<close> part of \<^verbatim>\<open>first_completed\<close>: \<^verbatim>\<open>await next(iterator)\<close> as a statement. A value
  is dropped; cancellation and timeout are raised again with the function's message.
\<close>

fun first_completed_try :: "'v outcome \<Rightarrow> error option" where
  "first_completed_try (Returned v) = None"
| "first_completed_try (Raised (CancelledError msg)) =
     Some (CancelledError ''first_completed gatherer cancelled'')"
| "first_completed_try (Raised (TimeoutError msg)) =
     Some (TimeoutError ''first_completed gatherer timed out'')"
| "first_completed_try (Raised e) = Some e"

text \<open>
  \<^verbatim>\<open>first_completed\<close>, given what \<^verbatim>\<open>await next(iterator)\<close> gave and the futures as they are
  when the \<^verbatim>\<open>finally\<close> block starts. An exception raised inside \<^verbatim>\<open>finally\<close> replaces the
  pending one; without any exception the function falls off its end.
\<close>

definition first_completed ::
  "'v outcome \<Rightarrow> 'v future list \<Rightarrow> (error + 'w returned) \<times> 'v future list" where
  "first_completed first fs =
     (case cancel_and_await fs of
        (Some e, fs') \<Rightarrow> (Inl e, fs')
      | (None, fs') \<Rightarrow>
          (case first_completed_try first of
             Some e \<Rightarrow> (Inl e, fs')
           | None \<Rightarrow> (Inr PyNone, fs')))"

text \<open>
  The \<^verbatim>\<open>try\<close> part of \<^verbatim>\<open>all_of\<close>: \<^verbatim>\<open>return await asyncio.wait_for(gatherer, timeout=timeout)\<close>.
\<close>

fun all_of_try :: "'v list outcome \<Rightarrow> error + 'v list" where
  "all_of_try (Returned vs) = Inr vs"
| "all_of_try (Raised (TimeoutError msg)) = Inl (TimeoutError ''all_of gatherer timed out'')"
| "all_of_try (Raised (CancelledError msg)) = Inl (CancelledError ''all_of gatherer cancelled'')"
| "all_of_try (Raised e) = Inl e"

text \<open>
  The end of the \<^verbatim>\<open>finally\<close> block of \<^verbatim>\<open>all_of\<close>:
  \<^verbatim>\<open>gatherer.cancel()\<close>, then \<^verbatim>\<open>await gatherer\<close> with \<^verbatim>\<open>CancelledError\<close> swallowed.
\<close>

fun await_gatherer :: "'v list future \<Rightarrow> error option" where
  "await_gatherer Cancelled = None"
| "await_gatherer (Pending (Raised (CancelledError msg))) = None"
| "await_gatherer (Pending (Raised e)) = Some e"
| "await_gatherer (Pending (Returned vs)) = None"
| "await_gatherer (Done (Raised (CancelledError msg))) = None"
| "await_gatherer (Done (Raised e)) = Some e"
| "await_gatherer (Done (Returned vs)) = None"

definition all_of ::
  "'v list outcome \<Rightarrow> 'v future list \<Rightarrow> 'v list future
   \<Rightarrow> (error + 'v list returned) \<times> 'v future list" where
  "all_of waited fs gatherer =
     (case cancel_and_await fs of
        (Some e, fs') \<Rightarrow> (Inl e, fs')
      | (None, fs') \<Rightarrow>
          (case await_gatherer gatherer of
             Some e \<Rightarrow> (Inl e, fs')
           | None \<Rightarrow>
               (case all_of_try waited of
                  Inl e \<Rightarrow> (Inl e, fs')
                | Inr vs \<Rightarrow> (Inr (Value vs), fs'))))"

text \<open>
  A pending future is cooperative when awaiting it after the cancel request ends in
  cancellation or in a normal return.
\<close>

fun cooperative :: "'v future \<Rightarrow> bool" where
  "cooperative (Pending (Raised (CancelledError msg))) = True"
| "cooperative (Pending (Raised e)) = False"
| "cooperative f = True"

section \<open>Embeds (hikari/embeds.py)\<close>

record EmbedField =
  name :: string
  val :: string
  inline :: bool

text \<open>
  The slots of \<^verbatim>\<open>Embed\<close> that the field operations read or write. \<^verbatim>\<open>_fields\<close> is
  \<^verbatim>\<open>None\<close> or a list; the remaining slots (author, image, footer and so on) are not
  touched by any operation below and are left out.
\<close>

record Embed =
  title :: "string option"
  description :: "string option"
  url :: "string option"
  fields_slot :: "EmbedField list option"

text \<open>\<^verbatim>\<open>Embed.__init__\<close>: every new embed starts with \<^verbatim>\<open>_fields = None\<close>.\<close>

definition Embed_init :: "string option \<Rightarrow> string option \<Rightarrow> string option \<Rightarrow> Embed" where
  "Embed_init t d u = \<lparr>title = t, description = d, url = u, fields_slot = None\<rparr>"

text \<open>Python truthiness of \<^verbatim>\<open>self._fields\<close>: neither \<^verbatim>\<open>None\<close> nor the empty list.\<close>

fun truthy_fields :: "EmbedField list option \<Rightarrow> bool" where
  "truthy_fields None = False"
| "truthy_fields (Some xs) = (xs \<noteq> [])"

text \<open>\<^verbatim>\<open>return self._fields if self._fields else []\<close>\<close>

definition fields :: "Embed \<Rightarrow> EmbedField list" where
  "fields self = (if truthy_fields (fields_slot self) then the (fields_slot self) else [])"

text \<open>
  \<^verbatim>\<open>del xs[index]\<close> on a Python list: an index in \<open>[0, len)\<close> is used as it is, one in
  \<open>[-len, 0)\<close> counts from the end, anything else raises \<^verbatim>\<open>IndexError\<close>.
\<close>

definition py_del :: "'a list \<Rightarrow> int \<Rightarrow> error + 'a list" where
  "py_del xs i =
     (let n = int (length xs) in
      if 0 \<le> i \<and> i < n then Inr (take (nat i) xs @ drop (Suc (nat i)) xs)
      else if - n \<le> i \<and> i < 0 then Inr (take (nat (i + n)) xs @ drop (Suc (nat (i + n))) xs)
      else Inl (IndexError i))"

text \<open>
  \<^verbatim>\<open>add_field\<close>: \<^verbatim>\<open>None\<close> for the name or the value is replaced by the empty string.
\<close>

definition add_field :: "Embed \<Rightarrow> string option \<Rightarrow> string option \<Rightarrow> bool \<Rightarrow> Embed" where
  "add_field self nm v inl =
     (let fs = (case fields_slot self of None \<Rightarrow> [] | Some xs \<Rightarrow> xs);
          nm' = (case nm of None \<Rightarrow> [] | Some s \<Rightarrow> s);
          v' = (case v of None \<Rightarrow> [] | Some s \<Rightarrow> s)
      in self\<lparr>fields_slot := Some (fs @ [\<lparr>name = nm', val = v', inline = inl\<rparr>])\<rparr>)"

text \<open>
  \<^verbatim>\<open>remove_field\<close>: the deletion runs only when \<^verbatim>\<open>_fields\<close> is truthy; afterwards a
  falsy \<^verbatim>\<open>_fields\<close> is reset to \<^verbatim>\<open>None\<close>.
\<close>

definition remove_field :: "Embed \<Rightarrow> int \<Rightarrow> error + Embed" where
  "remove_field self index =
     (if truthy_fields (fields_slot self) then
        (case py_del (the (fields_slot self)) index of
           Inl e \<Rightarrow> Inl e
         | Inr xs \<Rightarrow> Inr (self\<lparr>fields_slot := (if xs = [] then None else Some xs)\<rparr>))
      else Inr (self\<lparr>fields_slot := None\<rparr>))"

definition clear_fields :: "Embed \<Rightarrow> Embed" where
  "clear_fields self = self\<lparr>fields_slot := None\<rparr>"

section \<open>Properties of the intent flags\<close>

lemma ALL_PRIVILEGED_value: "ALL_PRIVILEGED = 33026"
  by (simp add: ALL_PRIVILEGED_def ALL_GUILDS_PRIVILEGED_def GUILD_MEMBERS_def
      GUILD_PRESENCES_def MESSAGE_CONTENT_def)

text \<open>
  Claim C9. For every intents value \<open>v\<close>, \<open>is_privileged v\<close> holds exactly when the bitwise
  intersection of \<open>v\<close> with \<open>ALL_PRIVILEGED\<close> is nonzero, and \<open>ALL_PRIVILEGED\<close> is the union
  of \<open>GUILD_MEMBERS\<close>, \<open>GUILD_PRESENCES\<close> and \<open>MESSAGE_CONTENT\<close>.
\<close>

theorem is_privileged_iff:
  "ALL_PRIVILEGED = (GUILD_MEMBERS OR GUILD_PRESENCES OR MESSAGE_CONTENT)
   \<and> (is_privileged v \<longleftrightarrow> (v AND (GUILD_MEMBERS OR GUILD_PRESENCES OR MESSAGE_CONTENT)) \<noteq> 0)"
  by (simp add: is_privileged_def ALL_PRIVILEGED_def ALL_GUILDS_PRIVILEGED_def or.assoc)

section \<open>Properties of the embed field list\<close>

lemma fields_empty_iff: "fields e = [] \<longleftrightarrow> \<not> truthy_fields (fields_slot e)"
  by (cases "fields_slot e") (auto simp: fields_def)

lemma remove_field_slot:
  assumes "remove_field e i = Inr e'"
  shows "fields_slot e' = None \<or> (\<exists>xs. xs \<noteq> [] \<and> fields_slot e' = Some xs)"
  using assms by (auto simp: remove_field_def split: if_splits sum.splits)

lemma py_del_singleton: "py_del [f] i = Inr xs \<Longrightarrow> xs = []"
  by (auto simp: py_del_def Let_def split: if_splits)

text \<open>
  Claim C8. An embed whose field list is empty shows the same \<open>fields\<close> value whatever its
  history: a new embed, an embed after \<open>clear_fields\<close>, and an embed whose last field was
  removed by \<open>remove_field\<close> all give the empty list. The three also agree on the stored
  slot (it is \<open>None\<close>), so equality on the slots and \<open>total_length\<close> cannot tell them apart
  either: emptying an embed that started new gives back the new embed.
\<close>

theorem fields_empty_same_for_every_history:
  "fields (Embed_init t d u) = []
   \<and> fields (clear_fields e) = []
   \<and> (fields e = [f] \<longrightarrow> remove_field e i = Inr e' \<longrightarrow> fields e' = [])
   \<and> fields_slot (Embed_init t d u) = None
   \<and> fields_slot (clear_fields e) = None
   \<and> (remove_field e i = Inr e' \<longrightarrow> fields e' = [] \<longrightarrow> e' = clear_fields e)
   \<and> clear_fields (add_field (Embed_init t d u) n v b) = Embed_init t d u
   \<and> remove_field (add_field (Embed_init t d u) n v b) 0 = Inr (Embed_init t d u)"
proof -
  have a: "fields (Embed_init t d u) = []" "fields_slot (Embed_init t d u) = None"
    by (simp_all add: fields_def Embed_init_def)
  have b: "fields (clear_fields e) = []" "fields_slot (clear_fields e) = None"
    by (simp_all add: fields_def clear_fields_def)
  have c: "fields e' = []" if "fields e = [f]" "remove_field e i = Inr e'"
  proof -
    from that(1) have s: "fields_slot e = Some [f]"
      by (cases "fields_slot e") (auto simp: fields_def split: if_splits)
    with that(2) show ?thesis
      by (auto simp: remove_field_def fields_def split: sum.splits dest: py_del_singleton)
  qed
  have d: "e' = clear_fields e" if "remove_field e i = Inr e'" "fields e' = []"
    using that
    by (auto simp: remove_field_def clear_fields_def fields_def split: if_splits sum.splits)
  have e: "clear_fields (add_field (Embed_init t d u) n v b) = Embed_init t d u"
    by (simp add: clear_fields_def add_field_def Embed_init_def)
  have f: "remove_field (add_field (Embed_init t d u) n v b) 0 = Inr (Embed_init t d u)"
    by (simp add: remove_field_def add_field_def Embed_init_def py_del_def)
  from a b c d e f show ?thesis by blast
qed

theorem fields_empty_same_for_every_history_witness:
  "fields (add_field (Embed_init None None None) (Some ''a'') (Some ''b'') False)
     = [\<lparr>name = ''a'', val = ''b'', inline = False\<rparr>]
   \<and> remove_field (add_field (Embed_init None None None) (Some ''a'') (Some ''b'') False) (- 1)
     = Inr (Embed_init None None None)
   \<and> fields (Embed_init None None None) = []
   \<and> Embed_init None None None
     = clear_fields (add_field (Embed_init None None None) (Some ''a'') (Some ''b'') False)"
  using fields_empty_same_for_every_history
    [of None None None
        "add_field (Embed_init None None None) (Some ''a'') (Some ''b'') False"
        "\<lparr>name = ''a'', val = ''b'', inline = False\<rparr>" "- 1" "Embed_init None None None"]
  by (simp add: fields_def add_field_def Embed_init_def remove_field_def py_del_def
      clear_fields_def)

section \<open>Properties of the event factory\<close>

lemma and_then_Inl [simp]: "and_then (Inl e) f = Inl e"
  by (simp add: and_then_def)

lemma and_then_Inr [simp]: "and_then (Inr x) f = f x"
  by (simp add: and_then_def)

lemma and_then_eq_Inr: "and_then m f = Inr y \<longleftrightarrow> (\<exists>x. m = Inr x \<and> f x = Inr y)"
  by (cases m) simp_all

subsection \<open>The operations on the example payloads\<close>

lemmas payload_simps =
  guild_payload_def memberless_payload_def simple_app_def simple_message_def getitem_def
  contains_def get_or_none_def get_or_undefined_def digit_value_def

lemma unix_epoch_5_seconds: "unix_epoch_to_datetime (PyInt 5) False = Inr (Datetime 5000000)"
  by (simp add: unix_epoch_to_datetime_def fromtimestamp_def int_truediv_def float_of_ratio_def
      ratio_exponent_def scaled_round_def round_div_even_def bit_length.simps Let_def)

lemma pins_guild_payload:
  "deserialize_channel_pins_update_event simple_app 0 guild_payload
     = Inr (GuildPinsUpdateEvent 0 1 3 None)"
  by (simp add: deserialize_channel_pins_update_event_def payload_simps)

lemma typing_guild_payload:
  "deserialize_typing_start_event simple_app 0 guild_payload
     = Inr (GuildTypingEvent 0 1 3 (Datetime 5000000) (JObj [(''nick'', JNull)], 3))"
  by (simp add: deserialize_typing_start_event_def payload_simps unix_epoch_5_seconds)

lemma create_guild_payload:
  "deserialize_message_create_event simple_app 0 guild_payload
     = Inr (GuildMessageCreateEvent 0 \<lparr>msg_id = 7, msg_channel_id = 1, msg_guild_id = Some 3\<rparr>)"
  by (simp add: deserialize_message_create_event_def payload_simps)

lemma update_guild_payload:
  "deserialize_message_update_event simple_app 0 guild_payload None
     = Inr (GuildMessageUpdateEvent 0
              \<lparr>msg_id = 7, msg_channel_id = 1, msg_guild_id = Some 3\<rparr> None)"
  by (simp add: deserialize_message_update_event_def payload_simps)

lemma delete_guild_payload:
  "deserialize_message_delete_event simple_app 0 guild_payload None
     = Inr (GuildMessageDeleteEvent 0 1 7 3 None)"
  by (simp add: deserialize_message_delete_event_def payload_simps)

lemma reaction_add_guild_payload:
  "deserialize_message_reaction_add_event simple_app 0 guild_payload
     = Inr (GuildReactionAddEvent 0 (JObj [(''nick'', JNull)], 3) 1 2 (Some 8)
              (Name (JStr ''x'')) False)"
  by (simp add: deserialize_message_reaction_add_event_def reaction_add_emoji_def payload_simps)

lemma reaction_remove_guild_payload:
  "deserialize_message_reaction_remove_event simple_app 0 guild_payload
     = Inr (GuildReactionDeleteEvent 0 4 3 1 2 (Some 8) (Name (JStr ''x'')))"
  by (simp add: deserialize_message_reaction_remove_event_def split_reaction_emoji_def
      payload_simps)

lemma reaction_remove_all_guild_payload:
  "deserialize_message_reaction_remove_all_event simple_app 0 guild_payload
     = Inr (GuildReactionDeleteAllEvent 0 3 1 2)"
  by (simp add: deserialize_message_reaction_remove_all_event_def payload_simps)

lemma reaction_remove_emoji_guild_payload:
  "deserialize_message_reaction_remove_emoji_event simple_app 0 guild_payload
     = Inr (GuildReactionDeleteEmojiEvent 0 (Some 8) (Name (JStr ''x'')) 3 1 2)"
  by (simp add: deserialize_message_reaction_remove_emoji_event_def split_reaction_emoji_def
      payload_simps)




lemma guild_payload_guild_id:
  "getitem guild_payload ''guild_id'' = Inr (JStr ''3'')"
  "Snowflake simple_app (JStr ''3'') = Inr 3"
  by (simp_all add: payload_simps)

subsection \<open>Which variant an operation returns\<close>















subsection \<open>The guild id of a guild-scoped event\<close>

lemma create_guild_id:
  assumes "deserialize_message_create_event app shard payload = Inr (GuildMessageCreateEvent s m)"
  shows "\<exists>g. message_event_guild_id m = Inr g \<and> msg_guild_id m = Some g"
  using assms
  by (auto simp: deserialize_message_create_event_def and_then_eq_Inr message_event_guild_id_def
      split: if_splits)

lemma update_guild_id:
  assumes "deserialize_message_update_event app shard payload old
             = Inr (GuildMessageUpdateEvent s m old')"
  shows "\<exists>g. message_event_guild_id m = Inr g \<and> msg_guild_id m = Some g"
  using assms
  by (auto simp: deserialize_message_update_event_def and_then_eq_Inr message_event_guild_id_def
      split: if_splits)

lemma delete_guild_id:
  assumes "deserialize_message_delete_event app shard payload old
             = Inr (GuildMessageDeleteEvent s c m g old')"
  shows "\<exists>raw. getitem payload ''guild_id'' = Inr raw \<and> Snowflake app raw = Inr g"
  using assms
  by (auto simp: deserialize_message_delete_event_def and_then_eq_Inr split: if_splits)

lemma pins_guild_id:
  assumes "deserialize_channel_pins_update_event app shard payload
             = Inr (GuildPinsUpdateEvent s c g t)"
  shows "\<exists>raw. getitem payload ''guild_id'' = Inr raw \<and> Snowflake app raw = Inr g"
  using assms
  by (auto simp: deserialize_channel_pins_update_event_def and_then_eq_Inr Let_def
      split: if_splits)

lemma typing_guild_id:
  assumes "deserialize_typing_start_event app shard payload = Inr (GuildTypingEvent s c g t mb)"
  shows "\<exists>raw. getitem payload ''guild_id'' = Inr raw \<and> Snowflake app raw = Inr g"
  using assms
  by (auto simp: deserialize_typing_start_event_def and_then_eq_Inr split: if_splits)

lemma reaction_remove_guild_id:
  assumes "deserialize_message_reaction_remove_event app shard payload
             = Inr (GuildReactionDeleteEvent s u g c m ei en)"
  shows "\<exists>raw. getitem payload ''guild_id'' = Inr raw \<and> Snowflake app raw = Inr g"
  using assms
  by (auto simp: deserialize_message_reaction_remove_event_def and_then_eq_Inr
      split: if_splits prod.splits)

lemma reaction_remove_all_guild_id:
  assumes "deserialize_message_reaction_remove_all_event app shard payload
             = Inr (GuildReactionDeleteAllEvent s g c m)"
  shows "\<exists>raw. getitem payload ''guild_id'' = Inr raw \<and> Snowflake app raw = Inr g"
  using assms
  by (auto simp: deserialize_message_reaction_remove_all_event_def and_then_eq_Inr
      split: if_splits)

lemma reaction_remove_emoji_guild_id:
  assumes "deserialize_message_reaction_remove_emoji_event app shard payload
             = Inr (GuildReactionDeleteEmojiEvent s ei en g c m)"
  shows "\<exists>raw. getitem payload ''guild_id'' = Inr raw \<and> Snowflake app raw = Inr g"
  using assms
  by (auto simp: deserialize_message_reaction_remove_emoji_event_def and_then_eq_Inr
      split: if_splits prod.splits)

lemma reaction_add_guild_id:
  assumes "deserialize_message_reaction_add_event app shard payload
             = Inr (GuildReactionAddEvent s mb c m ei en an)"
  shows "\<exists>raw g rawm. getitem payload ''guild_id'' = Inr raw \<and> Snowflake app raw = Inr g
           \<and> getitem payload ''member'' = Inr rawm \<and> deserialize_member app rawm g = Inr mb"
  using assms
  by (auto simp: deserialize_message_reaction_add_event_def and_then_eq_Inr
      split: if_splits prod.splits)

text \<open>
  Claim C7. Every guild-scoped event a decode operation returns has a guild id that is
  there and is a snowflake. For message-create and message-update the event is built in
  the branch where the message's guild id is not \<open>None\<close>, so the \<open>guild_id\<close> property
  passes its assertion and returns that id. For the other guild-scoped events the guild
  id field is the snowflake decoded from the payload's \<open>guild_id\<close> value; for reaction-add
  that snowflake is the guild id given to the member decoder.
\<close>

theorem guild_variant_has_guild_id:
  "(deserialize_message_create_event app shard payload = Inr (GuildMessageCreateEvent s m) \<longrightarrow>
      (\<exists>g. message_event_guild_id m = Inr g \<and> msg_guild_id m = Some g))
   \<and> (deserialize_message_update_event app shard payload old
         = Inr (GuildMessageUpdateEvent s m old') \<longrightarrow>
      (\<exists>g. message_event_guild_id m = Inr g \<and> msg_guild_id m = Some g))
   \<and> (deserialize_message_delete_event app shard payload old
         = Inr (GuildMessageDeleteEvent s c mid g old') \<longrightarrow>
      (\<exists>raw. getitem payload ''guild_id'' = Inr raw \<and> Snowflake app raw = Inr g))
   \<and> (deserialize_channel_pins_update_event app shard payload
         = Inr (GuildPinsUpdateEvent s c g t) \<longrightarrow>
      (\<exists>raw. getitem payload ''guild_id'' = Inr raw \<and> Snowflake app raw = Inr g))
   \<and> (deserialize_typing_start_event app shard payload = Inr (GuildTypingEvent s c g ts mb) \<longrightarrow>
      (\<exists>raw. getitem payload ''guild_id'' = Inr raw \<and> Snowflake app raw = Inr g))
   \<and> (deserialize_message_reaction_remove_event app shard payload
         = Inr (GuildReactionDeleteEvent s u g c mid ei en) \<longrightarrow>
      (\<exists>raw. getitem payload ''guild_id'' = Inr raw \<and> Snowflake app raw = Inr g))
   \<and> (deserialize_message_reaction_remove_all_event app shard payload
         = Inr (GuildReactionDeleteAllEvent s g c mid) \<longrightarrow>
      (\<exists>raw. getitem payload ''guild_id'' = Inr raw \<and> Snowflake app raw = Inr g))
   \<and> (deserialize_message_reaction_remove_emoji_event app shard payload
         = Inr (GuildReactionDeleteEmojiEvent s ei en g c mid) \<longrightarrow>
      (\<exists>raw. getitem payload ''guild_id'' = Inr raw \<and> Snowflake app raw = Inr g))
   \<and> (deserialize_message_reaction_add_event app shard payload
         = Inr (GuildReactionAddEvent s mb c mid ei en an) \<longrightarrow>
      (\<exists>raw g' rawm. getitem payload ''guild_id'' = Inr raw \<and> Snowflake app raw = Inr g'
         \<and> getitem payload ''member'' = Inr rawm \<and> deserialize_member app rawm g' = Inr mb))"
  using create_guild_id [of app shard payload s m] update_guild_id [of app shard payload old s m old']
    delete_guild_id [of app shard payload old s c mid g old']
    pins_guild_id [of app shard payload s c g t]
    typing_guild_id [of app shard payload s c g ts mb]
    reaction_remove_guild_id [of app shard payload s u g c mid ei en]
    reaction_remove_all_guild_id [of app shard payload s g c mid]
    reaction_remove_emoji_guild_id [of app shard payload s ei en g c mid]
    reaction_add_guild_id [of app shard payload s mb c mid ei en an]
  by blast

theorem guild_variant_has_guild_id_witness:
  "deserialize_message_create_event simple_app 0 guild_payload
     = Inr (GuildMessageCreateEvent 0 \<lparr>msg_id = 7, msg_channel_id = 1, msg_guild_id = Some 3\<rparr>)
   \<and> message_event_guild_id \<lparr>msg_id = 7, msg_channel_id = 1, msg_guild_id = Some 3\<rparr> = Inr 3
   \<and> deserialize_message_update_event simple_app 0 guild_payload None
     = Inr (GuildMessageUpdateEvent 0
              \<lparr>msg_id = 7, msg_channel_id = 1, msg_guild_id = Some 3\<rparr> None)
   \<and> deserialize_message_delete_event simple_app 0 guild_payload None
     = Inr (GuildMessageDeleteEvent 0 1 7 3 None)
   \<and> deserialize_channel_pins_update_event simple_app 0 guild_payload
     = Inr (GuildPinsUpdateEvent 0 1 3 None)
   \<and> deserialize_typing_start_event simple_app 0 guild_payload
     = Inr (GuildTypingEvent 0 1 3 (Datetime 5000000) (JObj [(''nick'', JNull)], 3))
   \<and> deserialize_message_reaction_remove_event simple_app 0 guild_payload
     = Inr (GuildReactionDeleteEvent 0 4 3 1 2 (Some 8) (Name (JStr ''x'')))
   \<and> deserialize_message_reaction_remove_all_event simple_app 0 guild_payload
     = Inr (GuildReactionDeleteAllEvent 0 3 1 2)
   \<and> deserialize_message_reaction_remove_emoji_event simple_app 0 guild_payload
     = Inr (GuildReactionDeleteEmojiEvent 0 (Some 8) (Name (JStr ''x'')) 3 1 2)
   \<and> deserialize_message_reaction_add_event simple_app 0 guild_payload
     = Inr (GuildReactionAddEvent 0 (JObj [(''nick'', JNull)], 3) 1 2 (Some 8)
              (Name (JStr ''x'')) False)
   \<and> getitem guild_payload ''guild_id'' = Inr (JStr ''3'')
   \<and> Snowflake simple_app (JStr ''3'') = Inr 3"
  using
    guild_variant_has_guild_id
      [where app = simple_app and shard = 0 and payload = guild_payload and s = 0
         and m = "\<lparr>msg_id = 7, msg_channel_id = 1, msg_guild_id = Some 3\<rparr>"
         and old = None and old' = None and c = 1 and mid = 7 and g = 3 and t = None
         and ts = "Datetime 5000000" and mb = "(JObj [(''nick'', JNull)], 3)" and u = 4
         and ei = "Some 8" and en = "Name (JStr ''x'')" and an = False]
    guild_variant_has_guild_id
      [where app = simple_app and shard = 0 and payload = guild_payload and s = 0
         and m = "\<lparr>msg_id = 7, msg_channel_id = 1, msg_guild_id = Some 3\<rparr>"
         and old = None and old' = None and c = 1 and mid = 2 and g = 3 and t = None
         and ts = "Datetime 5000000" and mb = "(JObj [(''nick'', JNull)], 3)" and u = 4
         and ei = "Some 8" and en = "Name (JStr ''x'')" and an = False]
  by (simp add: delete_guild_payload pins_guild_payload typing_guild_payload
      reaction_remove_guild_payload reaction_remove_all_guild_payload
      reaction_remove_emoji_guild_payload reaction_add_guild_payload create_guild_payload
      update_guild_payload message_event_guild_id_def guild_payload_guild_id)

subsection \<open>Reaction emoji\<close>

lemma split_reaction_emoji_custom:
  assumes "get_or_none ep ''id'' \<noteq> JNull" "Snowflake app (get_or_none ep ''id'') = Inr i"
    "getitem ep ''name'' = Inr nm"
  shows "split_reaction_emoji app (JObj ep) = Inr (Some i, Name nm)"
  using assms by (simp add: split_reaction_emoji_def)

lemma split_reaction_emoji_unicode:
  assumes "get_or_none ep ''id'' = JNull" "getitem ep ''name'' = Inr nm"
  shows "split_reaction_emoji app (JObj ep) = Inr (None, UnicodeEmoji nm)"
  using assms by (simp add: split_reaction_emoji_def)

lemma reaction_add_emoji_custom:
  assumes "truthy (get_or_none ep ''id'')" "Snowflake app (get_or_none ep ''id'') = Inr i"
    "i \<noteq> 0" "getitem ep ''name'' = Inr nm"
  shows "reaction_add_emoji app (JObj ep)
           = Inr (Some i, truthy (get_or_none ep ''animated''), Name nm)"
  using assms by (simp add: reaction_add_emoji_def)

lemma reaction_add_emoji_unicode:
  assumes "get_or_none ep ''id'' = JNull" "getitem ep ''name'' = Inr nm"
  shows "reaction_add_emoji app (JObj ep)
           = Inr (None, truthy (get_or_none ep ''animated''), UnicodeEmoji nm)"
  using assms by (simp add: reaction_add_emoji_def)

text \<open>
  Claim C5, as the code has it. For an emoji fragment that is a dict with a name:
  if its \<open>id\<close> is there and is not null (for reaction-add: is truthy and decodes to a
  nonzero snowflake), the result is a custom emoji, whose id is the decoded snowflake and
  whose name is the payload's name as it is; if \<open>id\<close> is missing or null, the result is a
  unicode emoji, with no id and the payload's name wrapped as a unicode emoji.
\<close>

theorem reaction_emoji_by_id:
  "(get_or_none ep ''id'' \<noteq> JNull \<longrightarrow> Snowflake app (get_or_none ep ''id'') = Inr i \<longrightarrow>
      getitem ep ''name'' = Inr nm \<longrightarrow>
      split_reaction_emoji app (JObj ep) = Inr (Some i, Name nm))
   \<and> (get_or_none ep ''id'' = JNull \<longrightarrow> getitem ep ''name'' = Inr nm \<longrightarrow>
      split_reaction_emoji app (JObj ep) = Inr (None, UnicodeEmoji nm))
   \<and> (truthy (get_or_none ep ''id'') \<longrightarrow> Snowflake app (get_or_none ep ''id'') = Inr i \<longrightarrow>
      i \<noteq> 0 \<longrightarrow> getitem ep ''name'' = Inr nm \<longrightarrow>
      reaction_add_emoji app (JObj ep)
        = Inr (Some i, truthy (get_or_none ep ''animated''), Name nm))
   \<and> (get_or_none ep ''id'' = JNull \<longrightarrow> getitem ep ''name'' = Inr nm \<longrightarrow>
      reaction_add_emoji app (JObj ep)
        = Inr (None, truthy (get_or_none ep ''animated''), UnicodeEmoji nm))"
  using split_reaction_emoji_custom [of ep app i nm] split_reaction_emoji_unicode [of ep nm app]
    reaction_add_emoji_custom [of ep app i nm] reaction_add_emoji_unicode [of ep nm app]
  by blast

theorem reaction_emoji_by_id_witness:
  "get_or_none [(''id'', JStr ''8''), (''name'', JStr ''x'')] ''id'' = JStr ''8''
   \<and> Snowflake simple_app (JStr ''8'') = Inr 8
   \<and> split_reaction_emoji simple_app (JObj [(''id'', JStr ''8''), (''name'', JStr ''x'')])
     = Inr (Some 8, Name (JStr ''x''))
   \<and> reaction_add_emoji simple_app (JObj [(''id'', JStr ''8''), (''name'', JStr ''x'')])
     = Inr (Some 8, False, Name (JStr ''x''))
   \<and> get_or_none [(''name'', JStr ''x'')] ''id'' = JNull
   \<and> split_reaction_emoji simple_app (JObj [(''name'', JStr ''x'')])
     = Inr (None, UnicodeEmoji (JStr ''x''))
   \<and> reaction_add_emoji simple_app (JObj [(''name'', JStr ''x'')])
     = Inr (None, False, UnicodeEmoji (JStr ''x''))"
  using
    reaction_emoji_by_id
      [of "[(''id'', JStr ''8''), (''name'', JStr ''x'')]" simple_app 8 "JStr ''x''"]
    reaction_emoji_by_id [of "[(''name'', JStr ''x'')]" simple_app 8 "JStr ''x''"]
  by (simp add: get_or_none_def getitem_def simple_app_def digit_value_def)

text \<open>
  The claim as stated fails on a fragment whose \<open>id\<close> is there and null, the shape the
  gateway uses for a unicode emoji: the key is present and the result is a unicode emoji.
\<close>

theorem emoji_id_null_counterexample:
  "contains [(''id'', JNull), (''name'', JStr ''x'')] ''id''
   \<and> split_reaction_emoji simple_app (JObj [(''id'', JNull), (''name'', JStr ''x'')])
     = Inr (None, UnicodeEmoji (JStr ''x''))
   \<and> reaction_add_emoji simple_app (JObj [(''id'', JNull), (''name'', JStr ''x'')])
     = Inr (None, False, UnicodeEmoji (JStr ''x''))"
  by (simp add: split_reaction_emoji_def reaction_add_emoji_def contains_def get_or_none_def
      getitem_def)

subsection \<open>The partial user of a presence update\<close>

lemma presence_single_key_no_user:
  assumes "deserialize_presence_update_event app shard payload old = Inr e"
    "getitem payload ''user'' = Inr user_payload" "py_len user_payload = Inr 1"
  shows "\<exists>presence. deserialize_member_presence app payload = Inr presence
           \<and> e = PresenceUpdateEvent shard presence None old"
  using assms by (auto simp: deserialize_presence_update_event_def and_then_eq_Inr)

lemma presence_many_keys_user:
  assumes "deserialize_presence_update_event app shard payload old = Inr e"
    "getitem payload ''user'' = Inr user_payload" "py_len user_payload = Inr n" "1 < n"
  shows "\<exists>presence up u. deserialize_member_presence app payload = Inr presence
           \<and> user_payload = JObj up
           \<and> e = PresenceUpdateEvent shard presence (Some u) old
           \<and> and_then (getitem up ''id'') (Snowflake app) = Inr (user_id u)
           \<and> user_discriminator u = get_or_undefined up ''discriminator''
           \<and> user_username u = get_or_undefined up ''username''
           \<and> user_global_name u = get_or_undefined up ''global_name''
           \<and> user_avatar_hash u = get_or_undefined up ''avatar''
           \<and> user_banner_hash u = get_or_undefined up ''banner''
           \<and> user_is_bot u = get_or_undefined up ''bot''
           \<and> user_is_system u = get_or_undefined up ''system''
           \<and> (user_flags u = UNDEFINED) = (\<not> contains up ''public_flags'')
           \<and> (user_accent_color u = UNDEFINED) = (\<not> contains up ''accent_color'')
           \<and> user_avatar_decoration u = Defined JNull"
proof (cases user_payload)
  case (JObj up)
  with assms show ?thesis
    by (auto simp: deserialize_presence_update_event_def and_then_eq_Inr Let_def
        split: if_splits)
qed (use assms in \<open>auto simp: deserialize_presence_update_event_def and_then_eq_Inr\<close>)

text \<open>
  Claim C2 at the payload \<open>user: {id: "5", username: "x"}\<close>: the partial user is built,
  \<open>username\<close> takes the payload value and the omitted fields read with a default carry
  \<open>UNDEFINED\<close>, but \<open>avatar_decoration\<close>, which the payload omits as well, is \<open>None\<close>.
\<close>

theorem presence_partial_user_avatar_decoration_none:
  "deserialize_presence_update_event simple_app 0
     [(''user'', JObj [(''id'', JStr ''5''), (''username'', JStr ''x'')])] None
   = Inr (PresenceUpdateEvent 0
            [(''user'', JObj [(''id'', JStr ''5''), (''username'', JStr ''x'')])]
            (Some \<lparr>user_id = 5,
                   user_discriminator = UNDEFINED,
                   user_username = Defined (JStr ''x''),
                   user_global_name = UNDEFINED,
                   user_avatar_decoration = Defined JNull,
                   user_avatar_hash = UNDEFINED,
                   user_banner_hash = UNDEFINED,
                   user_accent_color = UNDEFINED,
                   user_is_bot = UNDEFINED,
                   user_is_system = UNDEFINED,
                   user_flags = UNDEFINED\<rparr>)
            None)
   \<and> Defined JNull \<noteq> (UNDEFINED :: json UndefinedOr)"
  by (simp add: deserialize_presence_update_event_def payload_simps)

section \<open>Properties of the time helpers\<close>

lemmas float_simps =
  int_truediv_def float_of_ratio_def ratio_exponent_def scaled_round_def round_div_even_def
  bit_length.simps Let_def

text \<open>The round trip does hold at some epochs, for instance at one second.\<close>

lemma discord_epoch_round_trip_1000:
  "discord_epoch_to_datetime 1000 = Inr (Datetime 1420070401000000)
   \<and> datetime_to_discord_epoch (Datetime 1420070401000000) = Inr 1000"
  by (simp add: discord_epoch_to_datetime_def fromtimestamp_def datetime_add_def
      datetime_to_discord_epoch_def timestamp_def DISCORD_EPOCH_def float_simps)

text \<open>
  Claim C4 at the epoch 1001. \<open>discord_epoch_to_datetime 1001\<close> is
  2015-01-01T00:00:01.001Z, and \<open>datetime_to_discord_epoch\<close> of that value is 1000: the
  float \<open>1.001 * 1000\<close> is \<open>1000.9999999999999\<close>, which \<^verbatim>\<open>int\<close> truncates.
\<close>

theorem discord_epoch_round_trip_fails_at_1001:
  "discord_epoch_to_datetime 1001 = Inr (Datetime 1420070401001000)
   \<and> datetime_to_discord_epoch (Datetime 1420070401001000) = Inr 1000"
  by (simp add: discord_epoch_to_datetime_def fromtimestamp_def datetime_add_def
      datetime_to_discord_epoch_def timestamp_def DISCORD_EPOCH_def float_simps)

text \<open>
  Epochs whose conversion raises \<^verbatim>\<open>ValueError\<close> or \<^verbatim>\<open>OSError\<close> are clamped, and so is NaN.
\<close>

lemma unix_epoch_clamped:
  "unix_epoch_to_datetime (PyInt (10 ^ 18)) True = Inr datetime_max"
  "unix_epoch_to_datetime (PyInt (- (10 ^ 18))) True = Inr datetime_min"
  "unix_epoch_to_datetime (PyInt (10 ^ 18)) False = Inr datetime_max"
  "unix_epoch_to_datetime (PyFloat NaN) True = Inr datetime_min"
  by (simp_all add: unix_epoch_to_datetime_def fromtimestamp_def float_simps)

text \<open>
  Claim C6 at the float epoch \<open>2 ^ 80\<close> seconds: the conversion raises \<^verbatim>\<open>OverflowError\<close>,
  which the handler for \<^verbatim>\<open>OSError\<close> and \<^verbatim>\<open>ValueError\<close> does not catch, so the function
  raises instead of returning the maximum calendar value.
\<close>

theorem unix_epoch_overflow_not_caught:
  "unix_epoch_to_datetime (PyFloat (Finite 1 80)) False = Inl OverflowError"
  by (simp add: unix_epoch_to_datetime_def fromtimestamp_def float_simps)

section \<open>Properties of the task coordination\<close>

lemma cancel_and_await_length: "length (snd (cancel_and_await fs)) = length fs"
  by (induction fs rule: cancel_and_await.induct) (auto split: prod.splits)

lemma cancel_and_await_cooperative:
  "list_all cooperative fs \<Longrightarrow>
     fst (cancel_and_await fs) = None
     \<and> list_all (\<lambda>f. \<not> is_pending f) (snd (cancel_and_await fs))"
  by (induction fs rule: cancel_and_await.induct) (auto split: prod.splits)

lemma cancel_and_await_stops:
  assumes "list_all cooperative pre" "\<not> cooperative (Pending (Raised e))"
  shows "\<exists>pre'. cancel_and_await (pre @ Pending (Raised e) # post)
             = (Some e, pre' @ Done (Raised e) # post)
           \<and> list_all (\<lambda>f. \<not> is_pending f) pre'"
  using assms
proof (induction pre rule: cancel_and_await.induct)
  case 1
  then show ?case by (cases e) auto
qed (auto split: prod.splits)

lemma first_completed_snd: "snd (first_completed first fs) = snd (cancel_and_await fs)"
  by (auto simp: first_completed_def split: prod.splits option.splits)

lemma all_of_snd: "snd (all_of waited fs g) = snd (cancel_and_await fs)"
  by (auto simp: all_of_def split: prod.splits option.splits sum.splits)

lemma first_completed_none:
  "fst (first_completed first fs) = Inr r \<Longrightarrow> r = PyNone"
  by (auto simp: first_completed_def split: prod.splits option.splits)

lemma first_completed_value_dropped:
  "fst (cancel_and_await fs) = None \<Longrightarrow> fst (first_completed (Returned v) fs) = Inr PyNone"
  by (auto simp: first_completed_def split: prod.splits option.splits)

lemma first_completed_propagates_winner_exception:
  assumes "fst (cancel_and_await fs) = None"
  shows "fst (first_completed (Raised e) fs :: (error + 'w returned) \<times> 'v future list)
           = Inl (case e of
                    CancelledError msg \<Rightarrow> CancelledError ''first_completed gatherer cancelled''
                  | TimeoutError msg \<Rightarrow> TimeoutError ''first_completed gatherer timed out''
                  | other \<Rightarrow> e)"
  using assms
  by (cases e) (auto simp: first_completed_def split: prod.splits option.splits)

lemma first_completed_raised_from:
  assumes "fst (first_completed first fs :: (error + 'w returned) \<times> 'v future list) = Inl e"
  shows "fst (cancel_and_await fs) = Some e
         \<or> (fst (cancel_and_await fs) = None \<and> first_completed_try first = Some e)"
  using assms by (auto simp: first_completed_def split: prod.splits option.splits)

text \<open>
  When awaiting each cancelled operation ends in cancellation or in a normal return, no
  operation is pending once \<open>first_completed\<close> or \<open>all_of\<close> is left. When awaiting a
  cancelled operation raises another exception, that exception leaves the loop at once.
\<close>

lemma cooperative_operations_all_terminal:
  "(list_all cooperative fs \<longrightarrow>
      list_all (\<lambda>f. \<not> is_pending f)
        (snd (first_completed first fs :: (error + 'w returned) \<times> 'v future list)))
   \<and> (list_all cooperative fs \<longrightarrow>
      list_all (\<lambda>f. \<not> is_pending f) (snd (all_of waited fs g)))
   \<and> (list_all cooperative pre \<longrightarrow> \<not> cooperative (Pending (Raised e)) \<longrightarrow>
      (\<exists>pre'. (first_completed first (pre @ Pending (Raised e) # post)
                  :: (error + 'w returned) \<times> 'v future list)
               = (Inl e, pre' @ Done (Raised e) # post)
             \<and> list_all (\<lambda>f. \<not> is_pending f) pre'))
   \<and> (list_all cooperative pre \<longrightarrow> \<not> cooperative (Pending (Raised e)) \<longrightarrow>
      (\<exists>pre'. all_of waited (pre @ Pending (Raised e) # post) g
               = (Inl e, pre' @ Done (Raised e) # post)
             \<and> list_all (\<lambda>f. \<not> is_pending f) pre'))"
proof -
  have a: "list_all (\<lambda>f. \<not> is_pending f)
             (snd (first_completed first fs :: (error + 'w returned) \<times> 'v future list))"
    if "list_all cooperative fs"
    using cancel_and_await_cooperative [OF that] by (simp add: first_completed_snd)
  have b: "list_all (\<lambda>f. \<not> is_pending f) (snd (all_of waited fs g))"
    if "list_all cooperative fs"
    using cancel_and_await_cooperative [OF that] by (simp add: all_of_snd)
  have c: "\<exists>pre'. (first_completed first (pre @ Pending (Raised e) # post)
                     :: (error + 'w returned) \<times> 'v future list)
                  = (Inl e, pre' @ Done (Raised e) # post)
                \<and> list_all (\<lambda>f. \<not> is_pending f) pre'"
    if "list_all cooperative pre" "\<not> cooperative (Pending (Raised e))"
    using cancel_and_await_stops [OF that, of post] by (auto simp: first_completed_def)
  have d: "\<exists>pre'. all_of waited (pre @ Pending (Raised e) # post) g
                  = (Inl e, pre' @ Done (Raised e) # post)
                \<and> list_all (\<lambda>f. \<not> is_pending f) pre'"
    if "list_all cooperative pre" "\<not> cooperative (Pending (Raised e))"
    using cancel_and_await_stops [OF that, of post] by (auto simp: all_of_def)
  from a b c d show ?thesis by blast
qed

text \<open>
  With cooperative operations both calls leave every operation done or cancelled, and a
  value of the first finished operation is dropped.
\<close>

lemma cooperative_operations_example:
  "(first_completed (Raised (OtherError ''boom''))
      [Done (Raised (OtherError ''boom'')), Pending (Raised (CancelledError [])),
       Pending (Returned (1 :: int))] :: (error + unit returned) \<times> int future list)
     = (Inl (OtherError ''boom''),
        [Done (Raised (OtherError ''boom'')), Cancelled, Done (Returned 1)])
   \<and> all_of (Raised (TimeoutError []))
        [Done (Raised (OtherError ''boom'')), Pending (Raised (CancelledError [])),
         Pending (Returned (1 :: int))] Cancelled
     = (Inl (TimeoutError ''all_of gatherer timed out''),
        [Done (Raised (OtherError ''boom'')), Cancelled, Done (Returned 1)])
   \<and> first_completed (Returned (5 :: int))
        [Done (Returned 5), Pending (Raised (CancelledError []))]
     = (Inr (PyNone :: int returned), [Done (Returned 5), Cancelled])"
  by (simp add: first_completed_def all_of_def)

text \<open>
  Claim C3 at three operations of which the first has failed with \<open>boom\<close>, the second
  answers its cancellation by raising \<open>cleanup\<close>, and the third never completes. The loop
  catches \<^verbatim>\<open>CancelledError\<close> only, so it stops at the second operation: \<open>first_completed\<close>
  and \<open>all_of\<close> raise \<open>cleanup\<close>, and the third operation is still pending, neither
  cancelled nor awaited.
\<close>

theorem sibling_left_pending_after_cleanup_error:
  "(first_completed (Raised (OtherError ''boom''))
      [Done (Raised (OtherError ''boom'')), Pending (Raised (OtherError ''cleanup'')),
       Pending (Raised (CancelledError []))] :: (error + unit returned) \<times> int future list)
     = (Inl (OtherError ''cleanup''),
        [Done (Raised (OtherError ''boom'')), Done (Raised (OtherError ''cleanup'')),
         Pending (Raised (CancelledError []))])
   \<and> all_of (Raised (OtherError ''boom''))
        [Done (Raised (OtherError ''boom'')), Pending (Raised (OtherError ''cleanup'')),
         Pending (Raised (CancelledError [])) :: int future]
        (Done (Raised (OtherError ''boom'')))
     = (Inl (OtherError ''cleanup''),
        [Done (Raised (OtherError ''boom'')), Done (Raised (OtherError ''cleanup'')),
         Pending (Raised (CancelledError []))])
   \<and> is_pending (Pending (Raised (CancelledError [])) :: int future)"
  by (simp add: first_completed_def all_of_def)


end
